theory Spec2Isabelle
  imports Main
begin

section \<open>JavaScript values\<close>

text \<open>
  The values that the connection manager inspects: a port, an error code, the
  entries of \<open>dialectOptions\<close>. Numbers are the integer-valued ones (ports); \<open>NaN\<close>
  and fractions do not occur in what follows.
\<close>

datatype jsval = JUndefined | JNull | JBool bool | JNum int | JStr string

text \<open>Truthiness, as \<open>||\<close> and \<open>if\<close> test it.\<close>

fun truthy :: "jsval \<Rightarrow> bool" where
  "truthy JUndefined = False"
| "truthy JNull = False"
| "truthy (JBool b) = b"
| "truthy (JNum n) = (n \<noteq> 0)"
| "truthy (JStr s) = (s \<noteq> [])"

text \<open>\<open>a || b\<close>: the left operand when it is truthy, the right one otherwise.\<close>

definition js_or :: "jsval \<Rightarrow> jsval \<Rightarrow> jsval" where
  "js_or a b = (if truthy a then a else b)"

section \<open>Configuration, transport and errors\<close>

text \<open>
  An object literal whose property names matter to whoever receives it: the
  properties in the order in which they are written, each a name and a value. A
  name that is not listed is not a property of the object.
\<close>

type_synonym js_object = "(string \<times> jsval) list"

type_synonym aws_config = js_object

record dialect_options =
  awsConfig :: aws_config
  awsSecretStoreArn :: jsval
  dbClusterOrInstanceArn :: jsval
  database :: jsval
  schema :: jsval

record config =
  port :: jsval
  dialectOptions :: dialect_options

text \<open>
  The object literal that \<open>query\<close> hands to \<open>rds.executeSql\<close> (lines 60 to 66) is
  such an object: the transport reads it by property name.
\<close>

type_synonym executeSql_params = js_object

text \<open>The first argument of \<open>query\<close>, destructured as \<open>{ sql }\<close>.\<close>

record request =
  sql :: jsval

text \<open>A raw transport error: \<open>err.code\<close> is what the switch reads.\<close>

record raw_error =
  code :: jsval
  message :: string

text \<open>
  Modelled from the spec: the typed error constructors of \<open>../../errors\<close>, one per
  error kind, each accepting the original raw error for diagnostic wrapping.
\<close>

datatype seq_error =
    ConnectionRefusedError raw_error
  | AccessDeniedError raw_error
  | HostNotFoundError raw_error
  | HostNotReachableError raw_error
  | InvalidConnectionError raw_error
  | ConnectionError raw_error

datatype error_kind =
    ConnectionRefused | AccessDenied | HostNotFound | HostNotReachable
  | InvalidConnection | GenericConnectionError

fun kind_of :: "seq_error \<Rightarrow> error_kind" where
  "kind_of (ConnectionRefusedError e) = ConnectionRefused"
| "kind_of (AccessDeniedError e) = AccessDenied"
| "kind_of (HostNotFoundError e) = HostNotFound"
| "kind_of (HostNotReachableError e) = HostNotReachable"
| "kind_of (InvalidConnectionError e) = InvalidConnection"
| "kind_of (ConnectionError e) = GenericConnectionError"

fun original :: "seq_error \<Rightarrow> raw_error" where
  "original (ConnectionRefusedError e) = e"
| "original (AccessDeniedError e) = e"
| "original (HostNotFoundError e) = e"
| "original (HostNotReachableError e) = e"
| "original (InvalidConnectionError e) = e"
| "original (ConnectionError e) = e"

text \<open>
  The transport client is an external collaborator (aws-sdk's \<open>RDSDataService\<close>) and
  is a parameter of the model. For one execute-statement call it either never calls
  back (\<open>None\<close>) or invokes the completion callback once with \<open>(err, data)\<close>, while
  the call is still on the stack (\<open>DuringCall\<close>) or from the event loop, outside the
  call stack of the caller (\<open>LaterTick\<close>).
\<close>

datatype timing = DuringCall | LaterTick

record reply =
  timing :: timing
  err :: "raw_error option"
  data :: jsval

type_synonym rds_client = "executeSql_params \<Rightarrow> reply option"

text \<open>\<open>new lib.RDSDataService(awsConfig)\<close>: the client factory of the loaded module.\<close>

type_synonym aws_sdk = "aws_config \<Rightarrow> rds_client"

text \<open>
  What is observable outside the manager: the execute-statement calls that reached
  the transport, in order, and the errors thrown out of a completion callback that
  ran from the event loop, where no caller is left to catch them.
\<close>

record world =
  transport_log :: "executeSql_params list"
  uncaught :: "seq_error list"

text \<open>A callback that was invoked: when, and what it did.\<close>

record 'o callback_run =
  run_timing :: timing
  run_effect :: 'o

text \<open>
  \<open>rds.executeSql(params, handler)\<close>: one call reaches the transport, and the
  handler receives the transport's reply as it is.
\<close>

definition executeSql ::
  "rds_client \<Rightarrow> executeSql_params \<Rightarrow> (reply \<Rightarrow> 'o) \<Rightarrow> world \<Rightarrow> 'o callback_run option \<times> world" where
  "executeSql rds params handler w =
     (map_option (\<lambda>r. \<lparr>run_timing = timing r, run_effect = handler r\<rparr>) (rds params),
      w\<lparr>transport_log := transport_log w @ [params]\<rparr>)"

section \<open>The stateless connection\<close>

text \<open>
  The arrow function of lines 59 to 67, with the two variables it captures, \<open>rds\<close>
  and \<open>dialectOptions\<close> (here \<open>opts\<close>), as its first arguments.
\<close>

definition query_body ::
  "rds_client \<Rightarrow> dialect_options \<Rightarrow> request \<Rightarrow> (reply \<Rightarrow> 'o) \<Rightarrow> world \<Rightarrow> 'o callback_run option \<times> world" where
  "query_body rds opts rq handler =
     executeSql rds
       [(''awsSecretStoreArn'', awsSecretStoreArn opts),
        (''dbClusterOrInstanceArn'', dbClusterOrInstanceArn opts),
        (''sqlStatements'', sql rq),
        (''database'', database opts),
        (''schema'', schema opts)]
       handler"

text \<open>
  A function value is the code of the arrow function together with what it
  captured; \<open>call\<close> applies it. The connection of line 68 holds the same function
  value under both of its names.
\<close>

datatype closure = QueryFn rds_client dialect_options

fun call ::
  "closure \<Rightarrow> request \<Rightarrow> (reply \<Rightarrow> 'o) \<Rightarrow> world \<Rightarrow> 'o callback_run option \<times> world" where
  "call (QueryFn rds opts) rq handler w = query_body rds opts rq handler w"

record connection =
  query :: closure
  execute :: closure

section \<open>The connection manager\<close>

record 'o sequelize =
  config :: config
  options :: 'o

record 'o manager =
  lib :: aws_sdk
  sequelize :: "'o sequelize"

text \<open>How a callback ends: by throwing, or by calling \<open>resolve\<close>.\<close>

datatype ('e, 'c) callback_effect = Throw 'e | Resolve 'c

text \<open>The completion callback of the probe, lines 72 to 92.\<close>

definition probe_callback ::
  "connection \<Rightarrow> raw_error option \<Rightarrow> (seq_error, connection) callback_effect" where
  "probe_callback connection error =
     (case error of
        Some e \<Rightarrow>
          (if code e = JStr ''ECONNREFUSED'' then Throw (ConnectionRefusedError e)
           else if code e = JStr ''ER_ACCESS_DENIED_ERROR'' then Throw (AccessDeniedError e)
           else if code e = JStr ''ENOTFOUND'' then Throw (HostNotFoundError e)
           else if code e = JStr ''EHOSTUNREACH'' then Throw (HostNotReachableError e)
           else if code e = JStr ''EINVAL'' then Throw (InvalidConnectionError e)
           else Throw (ConnectionError e))
      | None \<Rightarrow> Resolve connection)"

text \<open>
  Modelled from the spec: the future of \<open>../../promise\<close>, constructed from an
  executor that receives \<open>resolve\<close> only (line 69). The value is the state in which
  the future ends. An error thrown while the executor is still running is caught by
  the constructor and rejects the future; an error thrown by a callback that runs
  from the event loop has no caller, stays uncaught and leaves the future pending.
\<close>

datatype 'a promise = Pending | Fulfilled 'a | Rejected seq_error

definition new_Promise ::
  "(world \<Rightarrow> (seq_error, 'a) callback_effect callback_run option \<times> world) \<Rightarrow> world \<Rightarrow> 'a promise \<times> world" where
  "new_Promise executor w =
     (case executor w of
        (None, w') \<Rightarrow> (Pending, w')
      | (Some r, w') \<Rightarrow>
          (case run_effect r of
             Resolve v \<Rightarrow> (Fulfilled v, w')
           | Throw e \<Rightarrow>
               (case run_timing r of
                  DuringCall \<Rightarrow> (Rejected e, w')
                | LaterTick \<Rightarrow> (Pending, w'\<lparr>uncaught := uncaught w' @ [e]\<rparr>))))"

text \<open>\<open>connect(config)\<close>, lines 56 to 94.\<close>

definition connect :: "'o manager \<Rightarrow> config \<Rightarrow> world \<Rightarrow> connection promise \<times> world" where
  "connect this cfg =
     (let opts = dialectOptions cfg;
          rds = lib this (awsConfig opts);
          query = QueryFn rds opts;
          connection = \<lparr>query = query, execute = query\<rparr>
      in new_Promise
           (call (connection.query connection)
              \<lparr>sql = JStr ''SELECT VERSION() as `version`''\<rparr>
              (\<lambda>r. probe_callback connection (err r))))"

text \<open>\<open>disconnect()\<close>, lines 96 to 98: it has no parameter, so any argument is ignored.\<close>

definition disconnect :: "'o manager \<Rightarrow> 'a \<Rightarrow> world \<Rightarrow> unit promise \<times> world" where
  "disconnect this connection w = (Fulfilled (), w)"

text \<open>\<open>validate(connection)\<close>, lines 100 to 102.\<close>

definition validate :: "'o manager \<Rightarrow> 'a \<Rightarrow> world \<Rightarrow> 'a \<times> world" where
  "validate this connection w = (connection, w)"

section \<open>The type parser registry\<close>

text \<open>
  Modelled from the spec: the registry of \<open>../parserStore\<close>, a mapping from a type
  identifier to a decode function with \<open>refresh(typeId, decodeFn)\<close> (installs or
  overrides the decode function for \<open>typeId\<close>; last write wins), \<open>clear()\<close> (removes
  all registered decode functions) and \<open>get(typeId)\<close> (the decode function, or
  absent). The registry is module-level state, so it is passed in and returned.
\<close>

type_synonym ('t, 'f) parser_store = "'t \<rightharpoonup> 'f"

definition parserStore_refresh :: "'t \<Rightarrow> 'f \<Rightarrow> ('t, 'f) parser_store \<Rightarrow> ('t, 'f) parser_store" where
  "parserStore_refresh tid decodeFn store = store(tid \<mapsto> decodeFn)"

definition parserStore_clear :: "('t, 'f) parser_store \<Rightarrow> ('t, 'f) parser_store" where
  "parserStore_clear store = Map.empty"

definition parserStore_get :: "('t, 'f) parser_store \<Rightarrow> 't \<Rightarrow> 'f option" where
  "parserStore_get store tid = store tid"

text \<open>
  The source hands the registry one data-type object (line 33); it carries the two
  arguments that the spec gives to \<open>refresh\<close>.
\<close>

record ('t, 'f) data_type =
  typeId :: 't
  parse :: 'f

text \<open>
  \<open>_refreshTypeParser\<close> and \<open>_clearTypeParser\<close>, lines 32 to 38. An Isabelle name
  cannot begin with an underscore, which is written \<open>priv\<close> here.
\<close>

definition priv_refreshTypeParser ::
  "('t, 'f) data_type \<Rightarrow> ('t, 'f) parser_store \<Rightarrow> ('t, 'f) parser_store" where
  "priv_refreshTypeParser dataType store =
     parserStore_refresh (typeId dataType) (parse dataType) store"

definition priv_clearTypeParser :: "('t, 'f) parser_store \<Rightarrow> ('t, 'f) parser_store" where
  "priv_clearTypeParser store = parserStore_clear store"

text \<open>The column metadata that a decode function receives; \<open>field.type\<close> selects it.\<close>

record 't field =
  type :: 't
  name :: string

type_synonym ('t, 'o, 'v) decoder = "'t field \<Rightarrow> 'o \<Rightarrow> (unit \<Rightarrow> 'v) \<Rightarrow> 'v"

text \<open>
  The receiver of the static \<open>_typecast\<close>: \<open>this\<close> is undefined when the function is
  called unbound, and otherwise an object that has a \<open>sequelize\<close> property or has
  none. Reading \<open>.options\<close> of an undefined \<open>this.sequelize\<close>, or \<open>.sequelize\<close> of an
  undefined \<open>this\<close>, throws a \<open>TypeError\<close>.
\<close>

datatype js_fault = TypeError

datatype 'o receiver = NoReceiver | Receiver "'o sequelize option"

text \<open>
  \<open>_typecast(field, next)\<close>, lines 40 to 45. The arguments of the decode function
  are evaluated before it is invoked, so a missing receiver faults without calling
  it. The value \<open>'v\<close> stands for however the invoked function completes.
\<close>

definition priv_typecast ::
  "'o receiver \<Rightarrow> ('t, ('t, 'o, 'v) decoder) parser_store \<Rightarrow> 't field \<Rightarrow> (unit \<Rightarrow> 'v) \<Rightarrow> js_fault + 'v" where
  "priv_typecast this store fld nxt =
     (case parserStore_get store (type fld) of
        Some decode \<Rightarrow>
          (case this of
             NoReceiver \<Rightarrow> Inl TypeError
           | Receiver None \<Rightarrow> Inl TypeError
           | Receiver (Some s) \<Rightarrow> Inr (decode fld (options s) nxt))
      | None \<Rightarrow> Inr (nxt ()))"

section \<open>Construction\<close>

text \<open>
  Modelled from the spec: \<open>refreshTypeParser\<close> of the base class
  \<open>../abstract/connection-manager\<close>, which installs the entries for the dialect's
  built-in types, each through the hook \<open>_refreshTypeParser\<close> of this class.
\<close>

definition refreshTypeParser ::
  "('t, 'f) data_type list \<Rightarrow> ('t, 'f) parser_store \<Rightarrow> ('t, 'f) parser_store" where
  "refreshTypeParser dataTypes store = fold priv_refreshTypeParser dataTypes store"

text \<open>
  Modelled from the spec: the constructor of the base class
  \<open>../abstract/connection-manager\<close>, reached by \<open>super(dialect, sequelize)\<close>. It
  keeps the engine handle as \<open>this.sequelize\<close> and performs no network I/O.
\<close>

definition abstract_constructor :: "'d \<Rightarrow> 'o sequelize \<Rightarrow> world \<Rightarrow> 'o sequelize \<times> world" where
  "abstract_constructor dialect seq w = (seq, w)"

text \<open>
  Modelled from the spec: \<open>_loadDialectModule\<close> of the base class, which obtains the
  handle to the transport-client factory and performs no network I/O. The module
  that the name \<open>'aws-sdk'\<close> resolves to is a parameter.
\<close>

definition loadDialectModule :: "aws_sdk \<Rightarrow> world \<Rightarrow> aws_sdk \<times> world" where
  "loadDialectModule aws_sdk w = (aws_sdk, w)"

text \<open>
  The constructor, lines 25 to 30: one line of the model for each statement.
  \<open>DataTypes\<close>, the table of \<open>../../data-types\<close>, is a parameter. The engine handle is
  shared with the caller, so the handle that the manager keeps is the updated one.
\<close>

definition constructor ::
  "aws_sdk \<Rightarrow> ('t, 'f) data_type list \<Rightarrow> 'd \<Rightarrow> 'o sequelize \<Rightarrow> ('t, 'f) parser_store \<Rightarrow> world
     \<Rightarrow> 'o manager \<times> ('t, 'f) parser_store \<times> world" where
  "constructor aws_sdk DataTypes dialect seq store w =
     (let seq' = seq\<lparr>config := (config seq)\<lparr>port := js_or (port (config seq)) (JNum 3306)\<rparr>\<rparr>;
          (this_sequelize, w1) = abstract_constructor dialect seq' w;
          (this_lib, w2) = loadDialectModule aws_sdk w1;
          store' = refreshTypeParser DataTypes store
      in (\<lparr>lib = this_lib, sequelize = this_sequelize\<rparr>, store', w2))"

section \<open>The specification's vocabulary\<close>

text \<open>The statement text of the probe, line 71.\<close>

definition probe_statement :: jsval where
  "probe_statement = JStr ''SELECT VERSION() as `version`''"

text \<open>
  The parameters of one execute-statement call for a statement under given options,
  property by property: the secret and the cluster, the statement under the name
  \<open>sqlStatements\<close>, the database and the schema, the four of them from the captured
  \<open>dialectOptions\<close>. It is stated apart from \<open>query_body\<close>, to be compared with it.
\<close>

definition forwarded_params :: "dialect_options \<Rightarrow> jsval \<Rightarrow> executeSql_params" where
  "forwarded_params opts s =
     [(''awsSecretStoreArn'', awsSecretStoreArn opts),
      (''dbClusterOrInstanceArn'', dbClusterOrInstanceArn opts),
      (''sqlStatements'', s),
      (''database'', database opts),
      (''schema'', schema opts)]"

text \<open>
  The parameters as the specification words them in section 4.4: the statement under
  the name \<open>sql\<close>, then the secret, the cluster, the database and the schema of the
  captured \<open>dialectOptions\<close>.
\<close>

definition claimed_params :: "dialect_options \<Rightarrow> jsval \<Rightarrow> executeSql_params" where
  "claimed_params opts s =
     [(''sql'', s),
      (''awsSecretStoreArn'', awsSecretStoreArn opts),
      (''dbClusterOrInstanceArn'', dbClusterOrInstanceArn opts),
      (''database'', database opts),
      (''schema'', schema opts)]"

text \<open>
  The classification table as the specification words it: a lookup of the raw code
  with the generic kind as the default. It is stated apart from the switch of lines
  75 to 88, to be compared with it.
\<close>

definition classification_table :: "(string \<times> error_kind) list" where
  "classification_table =
     [(''ECONNREFUSED'', ConnectionRefused),
      (''ER_ACCESS_DENIED_ERROR'', AccessDenied),
      (''ENOTFOUND'', HostNotFound),
      (''EHOSTUNREACH'', HostNotReachable),
      (''EINVAL'', InvalidConnection)]"

fun spec_classify :: "jsval \<Rightarrow> error_kind" where
  "spec_classify (JStr c) =
     (case map_of classification_table c of Some k \<Rightarrow> k | None \<Rightarrow> GenericConnectionError)"
| "spec_classify v = GenericConnectionError"

section \<open>Scenarios\<close>

text \<open>
  The configuration of the specification's scenario, a transport that answers every
  call with one given reply, and replies that succeed or fail.
\<close>

definition scenario_options :: dialect_options where
  "scenario_options =
     \<lparr>awsConfig = [], awsSecretStoreArn = JStr ''secret1'',
      dbClusterOrInstanceArn = JStr ''arn1'', database = JStr ''db1'', schema = JUndefined\<rparr>"

definition scenario_config :: config where
  "scenario_config = \<lparr>port = JUndefined, dialectOptions = scenario_options\<rparr>"

definition answering :: "reply \<Rightarrow> aws_sdk" where
  "answering r = (\<lambda>cfg params. Some r)"

definition scenario_manager :: "reply \<Rightarrow> unit manager" where
  "scenario_manager r =
     \<lparr>lib = answering r, sequelize = \<lparr>config = scenario_config, options = ()\<rparr>\<rparr>"

definition idle :: world where
  "idle = \<lparr>transport_log = [], uncaught = []\<rparr>"

definition refused :: raw_error where
  "refused = \<lparr>code = JStr ''ECONNREFUSED'', message = ''connect ECONNREFUSED''\<rparr>"

definition not_found :: raw_error where
  "not_found = \<lparr>code = JStr ''ENOTFOUND'', message = ''getaddrinfo ENOTFOUND''\<rparr>"

definition success :: reply where
  "success = \<lparr>timing = LaterTick, err = None, data = JStr ''8.0''\<rparr>"

definition failing :: "timing \<Rightarrow> raw_error \<Rightarrow> reply" where
  "failing t e = \<lparr>timing = t, err = Some e, data = JUndefined\<rparr>"

definition scenario_connection :: connection where
  "scenario_connection =
     \<lparr>query = QueryFn (answering success []) scenario_options,
      execute = QueryFn (answering success []) scenario_options\<rparr>"

text \<open>
  Engine handles with an unset port, a port of their own and the port \<open>0\<close>; a table
  of built-in types with one decoder, which reads the time zone of the context
  options; a registry without entries and one that holds the decoder; a field of the
  registered type and a field of another type.
\<close>

definition zero_port_sequelize :: "unit sequelize" where
  "zero_port_sequelize =
     \<lparr>config = \<lparr>port = JNum 0, dialectOptions = scenario_options\<rparr>, options = ()\<rparr>"

definition scenario_sequelize :: "jsval sequelize" where
  "scenario_sequelize = \<lparr>config = scenario_config, options = JStr ''+00:00''\<rparr>"

definition date_decoder :: "(string, jsval, jsval) decoder" where
  "date_decoder fld opts nxt = JStr (''DATE in '' @ (case opts of JStr z \<Rightarrow> z | _ \<Rightarrow> ''?''))"

definition raw_decoder :: "unit \<Rightarrow> jsval" where
  "raw_decoder u = JStr ''raw''"

definition sample_types :: "(string, (string, jsval, jsval) decoder) data_type list" where
  "sample_types = [\<lparr>typeId = ''DATE'', parse = date_decoder\<rparr>]"

definition no_parsers :: "(string, (string, jsval, jsval) decoder) parser_store" where
  "no_parsers = Map.empty"

definition date_parsers :: "(string, (string, jsval, jsval) decoder) parser_store" where
  "date_parsers = priv_refreshTypeParser \<lparr>typeId = ''DATE'', parse = date_decoder\<rparr> no_parsers"

definition custom_port_sequelize :: "jsval sequelize" where
  "custom_port_sequelize =
     \<lparr>config = \<lparr>port = JNum 3307, dialectOptions = scenario_options\<rparr>, options = JStr ''+00:00''\<rparr>"

definition date_field :: "string field" where
  "date_field = \<lparr>type = ''DATE'', name = ''created''\<rparr>"

definition blob_field :: "string field" where
  "blob_field = \<lparr>type = ''BLOB'', name = ''payload''\<rparr>"

section \<open>The probe and its callback\<close>

lemmas fixture_defs =
  scenario_options_def scenario_config_def answering_def scenario_manager_def idle_def
  refused_def not_found_def success_def failing_def

lemma probe_callback_error:
  "\<exists>t. probe_callback c (Some e) = Throw t \<and> original t = e \<and> kind_of t = spec_classify (code e)"
proof (cases "code e")
  case (JStr s)
  then show ?thesis
    by (simp add: probe_callback_def classification_table_def)
qed (simp_all add: probe_callback_def)

lemma probe_callback_ok: "probe_callback c None = Resolve c"
  by (simp add: probe_callback_def)

lemma connect_no_reply:
  "lib this (awsConfig (dialectOptions cfg)) (forwarded_params (dialectOptions cfg) probe_statement) = None \<Longrightarrow>
   connect this cfg w =
     (Pending, w\<lparr>transport_log := transport_log w @ [forwarded_params (dialectOptions cfg) probe_statement]\<rparr>)"
  by (simp add: connect_def Let_def new_Promise_def query_body_def executeSql_def
      forwarded_params_def probe_statement_def)

lemma connect_reply:
  "lib this (awsConfig (dialectOptions cfg)) (forwarded_params (dialectOptions cfg) probe_statement) = Some r \<Longrightarrow>
   connect this cfg w =
     (let rds = lib this (awsConfig (dialectOptions cfg));
          c = \<lparr>query = QueryFn rds (dialectOptions cfg), execute = QueryFn rds (dialectOptions cfg)\<rparr>;
          w' = w\<lparr>transport_log := transport_log w @ [forwarded_params (dialectOptions cfg) probe_statement]\<rparr>
      in case probe_callback c (err r) of
           Resolve v \<Rightarrow> (Fulfilled v, w')
         | Throw e \<Rightarrow>
             (case timing r of
                DuringCall \<Rightarrow> (Rejected e, w')
              | LaterTick \<Rightarrow> (Pending, w'\<lparr>uncaught := uncaught w' @ [e]\<rparr>)))"
  by (simp add: connect_def Let_def new_Promise_def query_body_def executeSql_def
      forwarded_params_def probe_statement_def split: callback_effect.split timing.split)

lemma connect_log:
  "transport_log (snd (connect this cfg w)) =
     transport_log w @ [forwarded_params (dialectOptions cfg) probe_statement]"
proof (cases "lib this (awsConfig (dialectOptions cfg)) (forwarded_params (dialectOptions cfg) probe_statement)")
  case None
  then show ?thesis by (simp add: connect_no_reply)
next
  case (Some r)
  then show ?thesis
    by (simp add: connect_reply Let_def split: callback_effect.split timing.split)
qed

lemma connect_Fulfilled:
  assumes "fst (connect this cfg w) = Fulfilled c"
  shows "c = \<lparr>query = QueryFn (lib this (awsConfig (dialectOptions cfg))) (dialectOptions cfg),
              execute = QueryFn (lib this (awsConfig (dialectOptions cfg))) (dialectOptions cfg)\<rparr>"
proof (cases "lib this (awsConfig (dialectOptions cfg)) (forwarded_params (dialectOptions cfg) probe_statement)")
  case None
  with assms show ?thesis by (simp add: connect_no_reply)
next
  case (Some r)
  show ?thesis
  proof (cases "err r")
    case None
    with Some assms show ?thesis
      by (simp add: connect_reply Let_def probe_callback_ok)
  next
    case (Some e)
    obtain t where "probe_callback
        \<lparr>query = QueryFn (lib this (awsConfig (dialectOptions cfg))) (dialectOptions cfg),
         execute = QueryFn (lib this (awsConfig (dialectOptions cfg))) (dialectOptions cfg)\<rparr>
        (Some e) = Throw t"
      using probe_callback_error by blast
    with Some \<open>lib this _ _ = Some r\<close> assms show ?thesis
      by (cases "timing r") (simp_all add: connect_reply Let_def)
  qed
qed

lemma call_QueryFn:
  "call (QueryFn rds opts) \<lparr>sql = s\<rparr> handler w =
     (map_option (\<lambda>r. \<lparr>run_timing = timing r, run_effect = handler r\<rparr>) (rds (forwarded_params opts s)),
      w\<lparr>transport_log := transport_log w @ [forwarded_params opts s]\<rparr>)"
  by (simp add: query_body_def executeSql_def forwarded_params_def)

section \<open>Claims about connect and the connection\<close>

text \<open>
  C1. The claim: every transport error delivered to the probe's completion callback
  is surfaced by rejecting the future that \<open>connect\<close> returned, and is never raised
  as a fault. The code at a refused connection whose callback runs from the event
  loop: the typed error is thrown out of the callback and stays uncaught, and the
  future is left pending. The future is not rejected.
\<close>

theorem connect_async_error_escapes:
  "connect (scenario_manager (failing LaterTick refused)) scenario_config idle =
     (Pending,
      \<lparr>transport_log = [forwarded_params scenario_options probe_statement],
       uncaught = [ConnectionRefusedError refused]\<rparr>)"
  by (simp add: connect_def new_Promise_def query_body_def executeSql_def probe_callback_def
      forwarded_params_def probe_statement_def fixture_defs Let_def)

text \<open>
  C2. For every raw error that the probe's callback receives, \<open>connect\<close> produces
  exactly one typed error, as a rejection or as a fault; it wraps the original raw
  error, and its kind is the one that the classification table gives for
  \<open>err.code\<close> alone, the generic kind for every code that is not listed.
\<close>

theorem connect_error_classification:
  assumes "lib this (awsConfig (dialectOptions cfg))
             (forwarded_params (dialectOptions cfg) probe_statement) = Some r"
    and "err r = Some e"
  shows "\<exists>t. original t = e \<and> kind_of t = spec_classify (code e) \<and>
           (fst (connect this cfg w) = Rejected t \<and>
              uncaught (snd (connect this cfg w)) = uncaught w
            \<or> fst (connect this cfg w) = Pending \<and>
              uncaught (snd (connect this cfg w)) = uncaught w @ [t])"
proof -
  let ?rds = "lib this (awsConfig (dialectOptions cfg))"
  let ?c = "\<lparr>query = QueryFn ?rds (dialectOptions cfg), execute = QueryFn ?rds (dialectOptions cfg)\<rparr>"
  obtain t where t: "probe_callback ?c (Some e) = Throw t" "original t = e"
      "kind_of t = spec_classify (code e)"
    using probe_callback_error by blast
  have "fst (connect this cfg w) = Rejected t \<and> uncaught (snd (connect this cfg w)) = uncaught w
      \<or> fst (connect this cfg w) = Pending \<and> uncaught (snd (connect this cfg w)) = uncaught w @ [t]"
    using assms t(1) by (cases "timing r") (simp_all add: connect_reply Let_def)
  with t(2,3) show ?thesis by blast
qed

theorem connect_error_classification_witness:
  "lib (scenario_manager (failing LaterTick not_found)) (awsConfig (dialectOptions scenario_config))
     (forwarded_params (dialectOptions scenario_config) probe_statement)
     = Some (failing LaterTick not_found) \<and>
   err (failing LaterTick not_found) = Some not_found \<and>
   (\<exists>t. original t = not_found \<and> kind_of t = HostNotFound \<and>
      uncaught (snd (connect (scenario_manager (failing LaterTick not_found)) scenario_config idle)) = [t])"
proof -
  let ?m = "scenario_manager (failing LaterTick not_found)"
  have h1: "lib ?m (awsConfig (dialectOptions scenario_config))
      (forwarded_params (dialectOptions scenario_config) probe_statement)
      = Some (failing LaterTick not_found)"
    by (simp add: scenario_manager_def answering_def)
  have h2: "err (failing LaterTick not_found) = Some not_found"
    by (simp add: failing_def)
  obtain t where t: "original t = not_found" "kind_of t = spec_classify (code not_found)"
    and d: "fst (connect ?m scenario_config idle) = Rejected t \<and>
        uncaught (snd (connect ?m scenario_config idle)) = uncaught idle
      \<or> fst (connect ?m scenario_config idle) = Pending \<and>
        uncaught (snd (connect ?m scenario_config idle)) = uncaught idle @ [t]"
    using connect_error_classification [OF h1 h2, of idle] by blast
  have k: "spec_classify (code not_found) = HostNotFound"
    by (simp add: not_found_def classification_table_def)
  have "fst (connect ?m scenario_config idle) = Pending"
    using h1 by (simp add: connect_reply Let_def failing_def probe_callback_def not_found_def)
  with d have "uncaught (snd (connect ?m scenario_config idle)) = [t]"
    by (simp add: idle_def)
  with t k h1 h2 show ?thesis by auto
qed

text \<open>
  C3, as the claim states it, fails: the parameters of the call that \<open>query\<close> issues
  are not the object \<open>{sql: s, ...}\<close> of the claim. For the scenario's connection and
  the statement \<open>SELECT 1\<close>, the object that reaches the transport has no property
  \<open>sql\<close>; the statement is its property \<open>sqlStatements\<close>, which the claimed object
  does not have.
\<close>

theorem connection_params_have_no_sql_property:
  "fst (connect (scenario_manager success) scenario_config idle) = Fulfilled scenario_connection \<and>
   transport_log (snd (call (query scenario_connection) \<lparr>sql = JStr ''SELECT 1''\<rparr> err idle)) =
     [[(''awsSecretStoreArn'', JStr ''secret1''), (''dbClusterOrInstanceArn'', JStr ''arn1''),
       (''sqlStatements'', JStr ''SELECT 1''), (''database'', JStr ''db1''),
       (''schema'', JUndefined)]] \<and>
   map_of [(''awsSecretStoreArn'', JStr ''secret1''), (''dbClusterOrInstanceArn'', JStr ''arn1''),
       (''sqlStatements'', JStr ''SELECT 1''), (''database'', JStr ''db1''),
       (''schema'', JUndefined)] ''sql'' = None \<and>
   map_of (claimed_params scenario_options (JStr ''SELECT 1'')) ''sql'' = Some (JStr ''SELECT 1'') \<and>
   map_of (claimed_params scenario_options (JStr ''SELECT 1'')) ''sqlStatements'' = None"
  by (simp add: connect_def new_Promise_def query_body_def executeSql_def probe_callback_def
      fixture_defs scenario_connection_def claimed_params_def Let_def)

text \<open>
  C3, amended. For every statement \<open>s\<close> and every connection that \<open>connect\<close> resolved
  with, \<open>query\<close> and \<open>execute\<close> are the same function; calling it issues exactly one
  execute-statement call, whose parameters are the object with the five properties
  \<open>awsSecretStoreArn\<close>, \<open>dbClusterOrInstanceArn\<close>, \<open>sqlStatements\<close>, \<open>database\<close> and
  \<open>schema\<close>: the statement \<open>s\<close> under \<open>sqlStatements\<close>, the other four unchanged from
  \<open>config.dialectOptions\<close>. The caller's handler receives the transport's reply to
  that object as it is.
\<close>

theorem connection_forwards_statement:
  assumes "fst (connect this cfg w0) = Fulfilled c"
  shows "query c = execute c \<and>
         call (query c) \<lparr>sql = s\<rparr> handler w =
           (map_option (\<lambda>r. \<lparr>run_timing = timing r, run_effect = handler r\<rparr>)
              (lib this (awsConfig (dialectOptions cfg))
                 [(''awsSecretStoreArn'', awsSecretStoreArn (dialectOptions cfg)),
                  (''dbClusterOrInstanceArn'', dbClusterOrInstanceArn (dialectOptions cfg)),
                  (''sqlStatements'', s),
                  (''database'', database (dialectOptions cfg)),
                  (''schema'', schema (dialectOptions cfg))]),
            w\<lparr>transport_log := transport_log w @
                [[(''awsSecretStoreArn'', awsSecretStoreArn (dialectOptions cfg)),
                  (''dbClusterOrInstanceArn'', dbClusterOrInstanceArn (dialectOptions cfg)),
                  (''sqlStatements'', s),
                  (''database'', database (dialectOptions cfg)),
                  (''schema'', schema (dialectOptions cfg))]]\<rparr>)"
  using connect_Fulfilled [OF assms] by (simp add: query_body_def executeSql_def)

theorem connection_forwards_statement_witness:
  "fst (connect (scenario_manager success) scenario_config idle) = Fulfilled scenario_connection \<and>
   query scenario_connection = execute scenario_connection \<and>
   call (query scenario_connection) \<lparr>sql = JStr ''SELECT 1''\<rparr> err idle =
     (Some \<lparr>run_timing = LaterTick, run_effect = None\<rparr>,
      \<lparr>transport_log =
         [[(''awsSecretStoreArn'', JStr ''secret1''), (''dbClusterOrInstanceArn'', JStr ''arn1''),
           (''sqlStatements'', JStr ''SELECT 1''), (''database'', JStr ''db1''),
           (''schema'', JUndefined)]],
       uncaught = []\<rparr>)"
proof -
  have h: "fst (connect (scenario_manager success) scenario_config idle) = Fulfilled scenario_connection"
    by (simp add: connect_def new_Promise_def query_body_def executeSql_def probe_callback_def
        fixture_defs scenario_connection_def Let_def)
  note f = connection_forwards_statement [OF h, of "JStr ''SELECT 1''" err idle]
  from f have same: "query scenario_connection = execute scenario_connection"
    by (rule conjunct1)
  note c = f [THEN conjunct2]
  have "call (query scenario_connection) \<lparr>sql = JStr ''SELECT 1''\<rparr> err idle =
     (Some \<lparr>run_timing = LaterTick, run_effect = None\<rparr>,
      \<lparr>transport_log =
         [[(''awsSecretStoreArn'', JStr ''secret1''), (''dbClusterOrInstanceArn'', JStr ''arn1''),
           (''sqlStatements'', JStr ''SELECT 1''), (''database'', JStr ''db1''),
           (''schema'', JUndefined)]],
       uncaught = []\<rparr>)"
    unfolding c
    by (simp add: scenario_manager_def answering_def success_def scenario_config_def
        scenario_options_def idle_def)
  with h same show ?thesis by blast
qed

text \<open>
  C4. For every configuration, \<open>connect\<close> issues exactly one transport call, the
  probe statement with the parameters of \<open>config.dialectOptions\<close>; when the reply
  carries no error, the future is fulfilled with the connection whose two
  operations are bound to \<open>config.dialectOptions\<close>, and nothing is thrown.
\<close>

theorem connect_probes_once_and_resolves:
  "transport_log (snd (connect this cfg w)) =
     transport_log w @ [forwarded_params (dialectOptions cfg) probe_statement] \<and>
   (lib this (awsConfig (dialectOptions cfg))
        (forwarded_params (dialectOptions cfg) probe_statement) = Some r \<and> err r = None \<longrightarrow>
      fst (connect this cfg w) =
        Fulfilled
          \<lparr>query = QueryFn (lib this (awsConfig (dialectOptions cfg))) (dialectOptions cfg),
           execute = QueryFn (lib this (awsConfig (dialectOptions cfg))) (dialectOptions cfg)\<rparr> \<and>
      uncaught (snd (connect this cfg w)) = uncaught w)"
  by (simp add: connect_log) (simp add: connect_reply Let_def probe_callback_ok)

theorem connect_probes_once_and_resolves_witness:
  "lib (scenario_manager success) (awsConfig (dialectOptions scenario_config))
     (forwarded_params (dialectOptions scenario_config) probe_statement) = Some success \<and>
   err success = None \<and>
   transport_log (snd (connect (scenario_manager success) scenario_config idle)) =
     [forwarded_params scenario_options probe_statement] \<and>
   fst (connect (scenario_manager success) scenario_config idle) = Fulfilled scenario_connection"
proof -
  have h1: "lib (scenario_manager success) (awsConfig (dialectOptions scenario_config))
     (forwarded_params (dialectOptions scenario_config) probe_statement) = Some success"
    by (simp add: scenario_manager_def answering_def)
  have h2: "err success = None"
    by (simp add: success_def)
  note f = connect_probes_once_and_resolves [of "scenario_manager success" scenario_config idle success]
  from f have l: "transport_log (snd (connect (scenario_manager success) scenario_config idle)) =
      transport_log idle @ [forwarded_params (dialectOptions scenario_config) probe_statement]"
    by (rule conjunct1)
  from f h1 h2 have r: "fst (connect (scenario_manager success) scenario_config idle) =
      Fulfilled
        \<lparr>query = QueryFn (lib (scenario_manager success) (awsConfig (dialectOptions scenario_config)))
           (dialectOptions scenario_config),
         execute = QueryFn (lib (scenario_manager success) (awsConfig (dialectOptions scenario_config)))
           (dialectOptions scenario_config)\<rparr>"
    by blast
  have "transport_log (snd (connect (scenario_manager success) scenario_config idle)) =
      [forwarded_params scenario_options probe_statement]"
    unfolding l by (simp add: idle_def scenario_config_def)
  moreover have "fst (connect (scenario_manager success) scenario_config idle) =
      Fulfilled scenario_connection"
    unfolding r
    by (simp add: scenario_connection_def scenario_manager_def scenario_config_def
        scenario_options_def answering_def)
  ultimately show ?thesis using h1 h2 by blast
qed

text \<open>
  C5. For every argument, a null or a connection whose probe failed included,
  \<open>disconnect\<close> returns a fulfilled future and leaves the world as it was: no
  transport call, no fault.
\<close>

theorem disconnect_resolves_without_transport:
  "fst (disconnect this c w) = Fulfilled () \<and> snd (disconnect this c w) = w"
  by (simp add: disconnect_def)

text \<open>
  C6. For every value \<open>c\<close>, \<open>validate\<close> returns \<open>c\<close> itself and leaves the world as it
  was: no transport call.
\<close>

theorem validate_identity:
  "fst (validate this c w) = c \<and> snd (validate this c w) = w"
  by (simp add: validate_def)

section \<open>Claims about construction and the type parsers\<close>

lemma refreshTypeParser_other:
  "tid \<notin> typeId ` set dts \<Longrightarrow> refreshTypeParser dts store tid = store tid"
  unfolding refreshTypeParser_def
  by (induction dts arbitrary: store)
     (simp_all add: priv_refreshTypeParser_def parserStore_refresh_def)

lemma refreshTypeParser_installed:
  "dt \<in> set dts \<Longrightarrow> distinct (map typeId dts) \<Longrightarrow>
   refreshTypeParser dts store (typeId dt) = Some (parse dt)"
proof (induction dts arbitrary: store)
  case Nil
  then show ?case by simp
next
  case (Cons d dts)
  show ?case
  proof (cases "dt = d")
    case True
    from Cons.prems(2) have "typeId d \<notin> typeId ` set dts" by simp
    then have "refreshTypeParser dts (priv_refreshTypeParser d store) (typeId d)
        = priv_refreshTypeParser d store (typeId d)"
      by (rule refreshTypeParser_other)
    with True show ?thesis
      by (simp add: refreshTypeParser_def priv_refreshTypeParser_def parserStore_refresh_def)
  next
    case False
    with Cons.prems have "dt \<in> set dts" "distinct (map typeId dts)" by simp_all
    then have "refreshTypeParser dts (priv_refreshTypeParser d store) (typeId dt) = Some (parse dt)"
      by (rule Cons.IH)
    then show ?thesis by (simp add: refreshTypeParser_def)
  qed
qed

text \<open>
  C7, as the claim states it, fails: a port that is already set to \<open>0\<close> is not left
  unchanged; line 26 replaces it by 3306.
\<close>

theorem constructor_port_zero_replaced:
  "port (config zero_port_sequelize) = JNum 0 \<and>
   port (config (sequelize (fst (constructor (answering success) sample_types () zero_port_sequelize
     no_parsers idle)))) = JNum 3306"
  by (simp add: constructor_def abstract_constructor_def loadDialectModule_def Let_def js_or_def
      zero_port_sequelize_def)

text \<open>
  C7, amended. Construction sets the port of the engine configuration to 3306 when
  it is unset or any other falsy value (null, \<open>0\<close>, the empty string, false) and
  leaves every truthy port unchanged; it keeps the handle to the transport module,
  installs the decoder of every entry of the dialect's table of built-in types
  (the type identifiers of the table being distinct), and performs no network I/O:
  the world is as it was.
\<close>

theorem constructor_port_parsers_no_io:
  assumes "constructor aws_sdk dts dialect seq store w = (this, store', w')"
  shows "port (config (sequelize this)) =
           (if truthy (port (config seq)) then port (config seq) else JNum 3306) \<and>
         dialectOptions (config (sequelize this)) = dialectOptions (config seq) \<and>
         lib this = aws_sdk \<and>
         (distinct (map typeId dts) \<longrightarrow>
            (\<forall>dt \<in> set dts. parserStore_get store' (typeId dt) = Some (parse dt))) \<and>
         w' = w"
  using assms
  by (auto simp add: constructor_def abstract_constructor_def loadDialectModule_def Let_def
      js_or_def parserStore_get_def refreshTypeParser_installed)

theorem constructor_port_parsers_no_io_witness:
  "constructor (answering success) sample_types () scenario_sequelize no_parsers idle =
     (\<lparr>lib = answering success,
       sequelize = scenario_sequelize\<lparr>config := scenario_config\<lparr>port := JNum 3306\<rparr>\<rparr>\<rparr>,
      refreshTypeParser sample_types no_parsers, idle) \<and>
   port (config scenario_sequelize) = JUndefined \<and>
   port (config (scenario_sequelize\<lparr>config := scenario_config\<lparr>port := JNum 3306\<rparr>\<rparr>)) = JNum 3306 \<and>
   constructor (answering success) sample_types () custom_port_sequelize no_parsers idle =
     (\<lparr>lib = answering success, sequelize = custom_port_sequelize\<rparr>,
      refreshTypeParser sample_types no_parsers, idle) \<and>
   port (config custom_port_sequelize) = JNum 3307 \<and>
   distinct (map typeId sample_types) \<and>
   parserStore_get (refreshTypeParser sample_types no_parsers) ''DATE'' = Some date_decoder"
proof -
  let ?m = "\<lparr>lib = answering success,
     sequelize = scenario_sequelize\<lparr>config := scenario_config\<lparr>port := JNum 3306\<rparr>\<rparr>\<rparr>"
  have h1: "constructor (answering success) sample_types () scenario_sequelize no_parsers idle =
     (?m, refreshTypeParser sample_types no_parsers, idle)"
    by (simp add: constructor_def abstract_constructor_def loadDialectModule_def Let_def js_or_def
        scenario_sequelize_def scenario_config_def)
  have h2: "constructor (answering success) sample_types () custom_port_sequelize no_parsers idle =
     (\<lparr>lib = answering success, sequelize = custom_port_sequelize\<rparr>,
      refreshTypeParser sample_types no_parsers, idle)"
    by (simp add: constructor_def abstract_constructor_def loadDialectModule_def Let_def js_or_def
        custom_port_sequelize_def)
  have d: "distinct (map typeId sample_types)"
    by (simp add: sample_types_def)
  have m: "\<lparr>typeId = ''DATE'', parse = date_decoder\<rparr> \<in> set sample_types"
    by (simp add: sample_types_def)
  have p0: "port (config scenario_sequelize) = JUndefined"
    by (simp add: scenario_sequelize_def scenario_config_def)
  have p2: "port (config custom_port_sequelize) = JNum 3307"
    by (simp add: custom_port_sequelize_def)
  note f = constructor_port_parsers_no_io [OF h1]
  from f have "port (config (sequelize ?m)) =
      (if truthy (port (config scenario_sequelize)) then port (config scenario_sequelize)
       else JNum 3306)"
    by (rule conjunct1)
  then have p1: "port (config (scenario_sequelize\<lparr>config := scenario_config\<lparr>port := JNum 3306\<rparr>\<rparr>))
      = JNum 3306"
    by (simp add: p0)
  from f d m
  have "parserStore_get (refreshTypeParser sample_types no_parsers)
      (typeId \<lparr>typeId = ''DATE'', parse = date_decoder\<rparr>)
      = Some (parse \<lparr>typeId = ''DATE'', parse = date_decoder\<rparr>)"
    by blast
  then have g: "parserStore_get (refreshTypeParser sample_types no_parsers) ''DATE'' = Some date_decoder"
    by simp
  from h1 h2 d p0 p1 p2 g show ?thesis by blast
qed

text \<open>
  C8. For every field, context options and fallback: when the registry holds a
  decode function for \<open>field.type\<close>, \<open>_typecast\<close>, invoked on a receiver whose
  \<open>sequelize.options\<close> are the context options, returns what that function returns
  for the field, the context options and the fallback; when the registry holds no
  function for \<open>field.type\<close>, it returns what the fallback returns, on any receiver.
\<close>

theorem typecast_dispatch:
  "(parserStore_get store (type fld) = Some decode \<longrightarrow>
      priv_typecast (Receiver (Some \<lparr>config = cfg, options = contextOptions\<rparr>)) store fld nxt
        = Inr (decode fld contextOptions nxt)) \<and>
   (parserStore_get store (type fld) = None \<longrightarrow>
      priv_typecast this store fld nxt = Inr (nxt ()))"
  by (simp add: priv_typecast_def)

theorem typecast_dispatch_witness:
  "parserStore_get date_parsers (type date_field) = Some date_decoder \<and>
   priv_typecast (Receiver (Some \<lparr>config = scenario_config, options = JStr ''+00:00''\<rparr>))
     date_parsers date_field raw_decoder = Inr (JStr ''DATE in +00:00'') \<and>
   parserStore_get date_parsers (type blob_field) = None \<and>
   priv_typecast NoReceiver date_parsers blob_field raw_decoder = Inr (JStr ''raw'')"
proof -
  have h1: "parserStore_get date_parsers (type date_field) = Some date_decoder"
    by (simp add: parserStore_get_def date_parsers_def priv_refreshTypeParser_def
        parserStore_refresh_def date_field_def)
  have h2: "parserStore_get date_parsers (type blob_field) = None"
    by (simp add: parserStore_get_def date_parsers_def priv_refreshTypeParser_def
        parserStore_refresh_def blob_field_def no_parsers_def)
  from typecast_dispatch [of date_parsers date_field date_decoder scenario_config
      "JStr ''+00:00''" raw_decoder] h1
  have "priv_typecast (Receiver (Some \<lparr>config = scenario_config, options = JStr ''+00:00''\<rparr>))
      date_parsers date_field raw_decoder = Inr (date_decoder date_field (JStr ''+00:00'') raw_decoder)"
    by blast
  then have a: "priv_typecast (Receiver (Some \<lparr>config = scenario_config, options = JStr ''+00:00''\<rparr>))
      date_parsers date_field raw_decoder = Inr (JStr ''DATE in +00:00'')"
    by (simp add: date_decoder_def)
  from typecast_dispatch [of date_parsers blob_field _ _ _ raw_decoder NoReceiver] h2
  have "priv_typecast NoReceiver date_parsers blob_field raw_decoder = Inr (raw_decoder ())"
    by blast
  then have b: "priv_typecast NoReceiver date_parsers blob_field raw_decoder = Inr (JStr ''raw'')"
    by (simp add: raw_decoder_def)
  from h1 a h2 b show ?thesis by blast
qed

text \<open>
  C9. After \<open>_refreshTypeParser\<close> has registered the decode function \<open>f\<close> for the
  type \<open>T\<close>, the lookup of \<open>T\<close> gives \<open>f\<close>; after a following \<open>_clearTypeParser\<close> the
  lookup of every type gives nothing.
\<close>

theorem registry_refresh_then_clear:
  "parserStore_get (priv_refreshTypeParser \<lparr>typeId = T, parse = f\<rparr> store) T = Some f \<and>
   parserStore_get (priv_clearTypeParser (priv_refreshTypeParser \<lparr>typeId = T, parse = f\<rparr> store)) T' = None"
  by (simp add: parserStore_get_def priv_refreshTypeParser_def priv_clearTypeParser_def
      parserStore_refresh_def parserStore_clear_def)

text \<open>
  C10. Where a decode function is registered for \<open>field.type\<close>, \<open>_typecast\<close> reads
  \<open>this.sequelize.options\<close>: without a receiver, or with one that has no \<open>sequelize\<close>,
  it faults with a \<open>TypeError\<close> and the decode function is not reached; it returns
  a decoded value exactly when the receiver exposes \<open>sequelize\<close>, and then the value
  is the one decoded with that receiver's options.
\<close>

theorem typecast_needs_receiver:
  assumes "parserStore_get store (type fld) = Some decode"
  shows "priv_typecast NoReceiver store fld nxt = Inl TypeError \<and>
         priv_typecast (Receiver None) store fld nxt = Inl TypeError \<and>
         priv_typecast (Receiver (Some s)) store fld nxt = Inr (decode fld (options s) nxt) \<and>
         ((\<exists>v. priv_typecast this store fld nxt = Inr v) \<longleftrightarrow> (\<exists>s. this = Receiver (Some s)))"
  using assms
  by (auto simp add: priv_typecast_def split: receiver.splits option.splits)

theorem typecast_needs_receiver_witness:
  "parserStore_get date_parsers (type date_field) = Some date_decoder \<and>
   priv_typecast NoReceiver date_parsers date_field raw_decoder = Inl TypeError \<and>
   priv_typecast (Receiver None) date_parsers date_field raw_decoder = Inl TypeError \<and>
   priv_typecast (Receiver (Some scenario_sequelize)) date_parsers date_field raw_decoder
     = Inr (JStr ''DATE in +00:00'')"
proof -
  have h: "parserStore_get date_parsers (type date_field) = Some date_decoder"
    by (simp add: parserStore_get_def date_parsers_def priv_refreshTypeParser_def
        parserStore_refresh_def date_field_def)
  note f = typecast_needs_receiver [OF h, of raw_decoder scenario_sequelize NoReceiver]
  from f have a: "priv_typecast NoReceiver date_parsers date_field raw_decoder = Inl TypeError"
    by blast
  from f have b: "priv_typecast (Receiver None) date_parsers date_field raw_decoder = Inl TypeError"
    by blast
  from f have "priv_typecast (Receiver (Some scenario_sequelize)) date_parsers date_field raw_decoder
      = Inr (date_decoder date_field (options scenario_sequelize) raw_decoder)"
    by blast
  then have c: "priv_typecast (Receiver (Some scenario_sequelize)) date_parsers date_field raw_decoder
      = Inr (JStr ''DATE in +00:00'')"
    by (simp add: date_decoder_def scenario_sequelize_def)
  from h a b c show ?thesis by blast
qed

end
